theory Spec2Isabelle
  imports Complex_Main
begin

section \<open>Workout timer: data model\<close>

text \<open>
  The embedding follows the full variant of the application (the file that holds the
  head-to-head, stopwatch and breathing engines); the interval builder of the small
  variant \<^verbatim>\<open>script.js\<close> is embedded beside it.

  Conventions of the model.
  \<^item> The single mutable object \<^verbatim>\<open>workoutState\<close> is the record \<open>workoutState\<close>; every
    function that mutates it takes the record and returns the updated one.
  \<^item> Configuration numbers come from \<^verbatim>\<open>parseInt\<close> and are integers (\<open>int\<close>).
    Running times (\<^verbatim>\<open>timeRemaining\<close>, \<^verbatim>\<open>elapsedTime\<close>, lap times) are exact
    rationals: the tick quantum \<^verbatim>\<open>0.01\<close> is the rational \<open>1/100\<close>, and the
    rounding of IEEE doubles is not modelled.
  \<^item> \<^verbatim>\<open>setTimeout\<close> appends a callback to the field \<open>pendingTimeouts\<close>; the browser
    running a callback is the function \<open>fireTimeout\<close>. \<^verbatim>\<open>alert\<close>, \<^verbatim>\<open>playBeep\<close> and
    \<^verbatim>\<open>vibrate\<close> append to the field \<open>cues\<close>.
  \<^item> The DOM, the wake lock, the console and the interval handle are left out: a tick of
    the interval is a call of \<open>updateTimer\<close> (or \<open>updateBreathingTimer\<close>).
  \<^item> An object property that may be absent (\<^verbatim>\<open>set\<close>, \<^verbatim>\<open>nextSet\<close>, \<^verbatim>\<open>person\<close>) is an
    \<open>int option\<close>, \<open>None\<close> standing for \<^verbatim>\<open>undefined\<close>.
\<close>

datatype phaseType = Ready | Setup | Warmup | Work | Rest | LongRest | Complete

datatype workoutMode = Normal | HeadToHead | Stopwatch

record phase =
  ptype :: phaseType
  duration :: int
  roundNo :: int
  setNo :: "int option"
  nextSetNo :: "int option"
  person :: "int option"

record workoutConfig =
  setupDuration :: int
  warmupDuration :: int
  workDuration :: int
  restDuration :: int
  longRestDuration :: int
  setsPerRound :: int
  numberOfRounds :: int
  numberOfPeople :: int

section \<open>Sequence builders\<close>

subsection \<open>Head-to-head rotation\<close>

definition h2hSetupPhase :: "workoutConfig \<Rightarrow> phase" where
  "h2hSetupPhase c =
     \<lparr>ptype = Setup, duration = setupDuration c, roundNo = 0,
      setNo = Some 0, nextSetNo = None, person = Some 0\<rparr>"

definition h2hWorkPhase :: "workoutConfig \<Rightarrow> int \<Rightarrow> int \<Rightarrow> phase" where
  "h2hWorkPhase c r p =
     \<lparr>ptype = Work, duration = workDuration c, roundNo = r,
      setNo = Some 0, nextSetNo = None, person = Some p\<rparr>"

text \<open>The inner loop \<^verbatim>\<open>for (let person = 1; person <= config.numberOfPeople; person++)\<close>,
  started at any counter value, pushing onto the sequence built so far.\<close>

function peopleLoop :: "workoutConfig \<Rightarrow> int \<Rightarrow> int \<Rightarrow> phase list \<Rightarrow> phase list" where
  "peopleLoop c r p sq =
     (if p \<le> numberOfPeople c
      then peopleLoop c r (p + 1) (sq @ [h2hWorkPhase c r p])
      else sq)"
  by pat_completeness auto
termination
  by (relation "measure (\<lambda>(c, r, p, sq). nat (numberOfPeople c + 1 - p))") auto

declare peopleLoop.simps [simp del]

text \<open>The outer loop \<^verbatim>\<open>for (let round = 1; round <= config.numberOfRounds; round++)\<close>.\<close>

function h2hRoundsLoop :: "workoutConfig \<Rightarrow> int \<Rightarrow> phase list \<Rightarrow> phase list" where
  "h2hRoundsLoop c r sq =
     (if r \<le> numberOfRounds c
      then h2hRoundsLoop c (r + 1) (peopleLoop c r 1 sq)
      else sq)"
  by pat_completeness auto
termination
  by (relation "measure (\<lambda>(c, r, sq). nat (numberOfRounds c + 1 - r))") auto

declare h2hRoundsLoop.simps [simp del]

definition headToHeadPhases :: "workoutConfig \<Rightarrow> phase list" where
  "headToHeadPhases c =
     h2hRoundsLoop c 1 (if setupDuration c > 0 then [h2hSetupPhase c] else [])"

text \<open>\<^verbatim>\<open>sequence.reduce((sum, phase) => sum + phase.duration, 0)\<close>\<close>

definition totalOf :: "phase list \<Rightarrow> int" where
  "totalOf sq = foldl (\<lambda>sum p. sum + duration p) 0 sq"

subsection \<open>Interval rounds\<close>

definition setupPhase :: "workoutConfig \<Rightarrow> phase" where
  "setupPhase c =
     \<lparr>ptype = Setup, duration = setupDuration c, roundNo = 0,
      setNo = Some 0, nextSetNo = None, person = None\<rparr>"

definition warmupPhase :: "workoutConfig \<Rightarrow> phase" where
  "warmupPhase c =
     \<lparr>ptype = Warmup, duration = warmupDuration c, roundNo = 0,
      setNo = Some 0, nextSetNo = None, person = None\<rparr>"

definition workPhase :: "workoutConfig \<Rightarrow> int \<Rightarrow> int \<Rightarrow> phase" where
  "workPhase c r s =
     \<lparr>ptype = Work, duration = workDuration c, roundNo = r,
      setNo = Some s, nextSetNo = None, person = None\<rparr>"

definition restPhase :: "workoutConfig \<Rightarrow> int \<Rightarrow> int \<Rightarrow> phase" where
  "restPhase c r s =
     \<lparr>ptype = Rest, duration = restDuration c, roundNo = r,
      setNo = Some s, nextSetNo = Some (s + 1), person = None\<rparr>"

definition longRestPhase :: "workoutConfig \<Rightarrow> int \<Rightarrow> phase" where
  "longRestPhase c r =
     \<lparr>ptype = LongRest, duration = longRestDuration c, roundNo = r,
      setNo = Some 0, nextSetNo = None, person = None\<rparr>"

text \<open>The inner loop \<^verbatim>\<open>for (let set = 1; set <= config.setsPerRound; set++)\<close>.\<close>

function setsLoop :: "workoutConfig \<Rightarrow> int \<Rightarrow> int \<Rightarrow> phase list \<Rightarrow> phase list" where
  "setsLoop c r s sq =
     (if s \<le> setsPerRound c
      then setsLoop c r (s + 1)
             ((sq @ [workPhase c r s]) @
              (if s < setsPerRound c \<and> restDuration c > 0 then [restPhase c r s] else []))
      else sq)"
  by pat_completeness auto
termination
  by (relation "measure (\<lambda>(c, r, s, sq). nat (setsPerRound c + 1 - s))") auto

declare setsLoop.simps [simp del]

function roundsLoop :: "workoutConfig \<Rightarrow> int \<Rightarrow> phase list \<Rightarrow> phase list" where
  "roundsLoop c r sq =
     (if r \<le> numberOfRounds c
      then roundsLoop c (r + 1)
             (setsLoop c r 1 sq @
              (if r < numberOfRounds c \<and> longRestDuration c > 0 then [longRestPhase c r] else []))
      else sq)"
  by pat_completeness auto
termination
  by (relation "measure (\<lambda>(c, r, sq). nat (numberOfRounds c + 1 - r))") auto

declare roundsLoop.simps [simp del]

definition intervalPhases :: "workoutConfig \<Rightarrow> phase list" where
  "intervalPhases c =
     roundsLoop c 1
       ((if setupDuration c > 0 then [setupPhase c] else []) @
        (if warmupDuration c > 0 then [warmupPhase c] else []))"

text \<open>The builder of the small variant (\<^verbatim>\<open>script.js\<close>): the same iteration, no setup phase.\<close>

definition intervalPhasesBasic :: "workoutConfig \<Rightarrow> phase list" where
  "intervalPhasesBasic c =
     roundsLoop c 1 (if warmupDuration c > 0 then [warmupPhase c] else [])"

definition countType :: "phaseType \<Rightarrow> phase list \<Rightarrow> nat" where
  "countType t sq = length (filter (\<lambda>p. ptype p = t) sq)"


section \<open>Timer state\<close>

datatype breathingPhaseType = BreathingReady | BreathIn | InhaledHold | BreathOut | ExhaledHold

record breathingPhase =
  btype :: breathingPhaseType
  bduration :: int

record breathConfig =
  breathIn :: int
  inhaledHold :: int
  breathOut :: int
  exhaledHold :: int

record lap =
  lapNumber :: nat
  time :: rat
  lapDuration :: rat

text \<open>The callbacks handed to \<^verbatim>\<open>setTimeout\<close>. The two phase-transition closures capture
  \<^verbatim>\<open>nextIndex\<close>; for the breathing one \<open>None\<close> is the \<^verbatim>\<open>NaN\<close> that \<^verbatim>\<open>% 0\<close> gives.\<close>

datatype timeout =
    PhaseTransition nat
  | CompletionDialog
  | Restart
  | BreathingTransition "nat option"

datatype beep = BeepStart | BeepEnd | BeepRoundStart | BeepComplete

datatype cue = Alert string | PlayBeep beep | Vibrate "nat list"

record workoutState =
  config :: workoutConfig
  workoutMode :: workoutMode
  currentPhase :: phaseType
  currentRound :: int
  currentSet :: int
  nextSet :: int
  currentPerson :: int
  timeRemaining :: rat
  totalWorkoutTime :: int
  elapsedTime :: rat
  lapTimes :: "lap list"
  lapStartTime :: rat
  isPaused :: bool
  isRunning :: bool
  isCompleting :: bool
  isTransitioning :: bool
  phaseSequence :: "phase list"
  currentPhaseIndex :: nat
  hasInteracted :: bool
  breathingConfig :: breathConfig
  currentBreathingPhase :: breathingPhaseType
  breathingTimeRemaining :: rat
  breathingPhaseSequence :: "breathingPhase list"
  currentBreathingPhaseIndex :: nat
  breathingIsPaused :: bool
  breathingIsRunning :: bool
  breathingIsTransitioning :: bool
  pendingTimeouts :: "timeout list"
  cues :: "cue list"

text \<open>The object literal the script starts from. Its configuration has no
  \<^verbatim>\<open>numberOfPeople\<close> yet; every start reads the configuration from the form first.\<close>

definition initialState :: workoutState where
  "initialState =
     \<lparr>config = \<lparr>setupDuration = 10, warmupDuration = 0, workDuration = 30, restDuration = 10,
                longRestDuration = 60, setsPerRound = 4, numberOfRounds = 1, numberOfPeople = 0\<rparr>,
      workoutMode = Normal, currentPhase = Ready, currentRound = 0, currentSet = 0, nextSet = 0,
      currentPerson = 0, timeRemaining = 0, totalWorkoutTime = 0, elapsedTime = 0,
      lapTimes = [], lapStartTime = 0, isPaused = False, isRunning = False,
      isCompleting = False, isTransitioning = False, phaseSequence = [], currentPhaseIndex = 0,
      hasInteracted = False,
      breathingConfig = \<lparr>breathIn = 4, inhaledHold = 0, breathOut = 4, exhaledHold = 0\<rparr>,
      currentBreathingPhase = BreathingReady, breathingTimeRemaining = 0,
      breathingPhaseSequence = [], currentBreathingPhaseIndex = 0, breathingIsPaused = False,
      breathingIsRunning = False, breathingIsTransitioning = False,
      pendingTimeouts = [], cues = []\<rparr>"

text \<open>The tick quantum: \<^verbatim>\<open>setInterval(updateTimer, 10)\<close> with \<^verbatim>\<open>-= 0.01\<close>.\<close>

definition TICK :: rat where
  "TICK = 1 / 100"

definition emit :: "cue list \<Rightarrow> workoutState \<Rightarrow> workoutState" where
  "emit cs s = s\<lparr>cues := cues s @ cs\<rparr>"

definition setTimeout :: "timeout \<Rightarrow> workoutState \<Rightarrow> workoutState" where
  "setTimeout t s = s\<lparr>pendingTimeouts := pendingTimeouts s @ [t]\<rparr>"

section \<open>Form input\<close>

text \<open>
  The form fields as \<^verbatim>\<open>parseInt\<close> reads them: \<open>None\<close> is \<^verbatim>\<open>NaN\<close> (nothing parsable),
  \<open>Some n\<close> the parsed integer.
\<close>

record form =
  setupDurationInput :: "int option"
  warmupDurationInput :: "int option"
  workDurationInput :: "int option"
  restDurationInput :: "int option"
  longRestDurationInput :: "int option"
  setsPerRoundInput :: "int option"
  numberOfRoundsInput :: "int option"
  numberOfPeopleInput :: "int option"
  workDurationHeadToHeadInput :: "int option"
  setupDurationHeadToHeadInput :: "int option"
  numberOfRoundsHeadToHeadInput :: "int option"

record breathingForm =
  breathInTime :: "int option"
  inhaledHoldTime :: "int option"
  breathOutTime :: "int option"
  exhaledHoldTime :: "int option"

text \<open>\<^verbatim>\<open>parseInt(v) || d\<close>: \<^verbatim>\<open>NaN\<close> and \<^verbatim>\<open>0\<close> are falsy and give the default.\<close>

definition orDefault :: "int option \<Rightarrow> int \<Rightarrow> int" where
  "orDefault v d = (case v of None \<Rightarrow> d | Some n \<Rightarrow> if n = 0 then d else n)"

text \<open>\<^verbatim>\<open>phase.set || 0\<close> on a property that may be absent.\<close>

definition orZero :: "int option \<Rightarrow> int" where
  "orZero v = (case v of None \<Rightarrow> 0 | Some n \<Rightarrow> n)"

definition configFromForm :: "workoutMode \<Rightarrow> form \<Rightarrow> workoutConfig" where
  "configFromForm m f =
     (if m = HeadToHead then
        \<lparr>setupDuration = orDefault (setupDurationHeadToHeadInput f) 10,
         warmupDuration = 0,
         workDuration = orDefault (workDurationHeadToHeadInput f) 30,
         restDuration = 0,
         longRestDuration = 0,
         setsPerRound = 0,
         numberOfRounds = orDefault (numberOfRoundsHeadToHeadInput f) 1,
         numberOfPeople = orDefault (numberOfPeopleInput f) 3\<rparr>
      else
        \<lparr>setupDuration = orDefault (setupDurationInput f) 10,
         warmupDuration = orDefault (warmupDurationInput f) 0,
         workDuration = orDefault (workDurationInput f) 30,
         restDuration = orDefault (restDurationInput f) 0,
         longRestDuration = orDefault (longRestDurationInput f) 0,
         setsPerRound = orDefault (setsPerRoundInput f) 1,
         numberOfRounds = orDefault (numberOfRoundsInput f) 1,
         numberOfPeople = 0\<rparr>)"

definition loadConfigFromForm :: "form \<Rightarrow> workoutState \<Rightarrow> workoutState" where
  "loadConfigFromForm f s = s\<lparr>config := configFromForm (workoutMode s) f\<rparr>"

section \<open>Workout timer engine\<close>

definition buildHeadToHeadSequence :: "workoutState \<Rightarrow> workoutState" where
  "buildHeadToHeadSequence s =
     (let sq = headToHeadPhases (config s)
      in s\<lparr>phaseSequence := sq, currentPhaseIndex := 0, totalWorkoutTime := totalOf sq\<rparr>)"

definition buildPhaseSequence :: "workoutState \<Rightarrow> workoutState" where
  "buildPhaseSequence s =
     (let sq = intervalPhases (config s)
      in s\<lparr>phaseSequence := sq, currentPhaseIndex := 0, totalWorkoutTime := totalOf sq\<rparr>)"

definition buildPhaseSequenceBasic :: "workoutState \<Rightarrow> workoutState" where
  "buildPhaseSequenceBasic s =
     (let sq = intervalPhasesBasic (config s)
      in s\<lparr>phaseSequence := sq, currentPhaseIndex := 0, totalWorkoutTime := totalOf sq\<rparr>)"

definition resetTimer :: "workoutState \<Rightarrow> workoutState" where
  "resetTimer s =
     s\<lparr>isRunning := False, isPaused := False, isCompleting := False, isTransitioning := False,
       currentPhase := Ready, currentPhaseIndex := 0, currentRound := 0, currentSet := 0,
       nextSet := 0, currentPerson := 0, timeRemaining := 0, elapsedTime := 0,
       lapTimes := [], lapStartTime := 0\<rparr>"

definition completeWorkout :: "workoutState \<Rightarrow> workoutState" where
  "completeWorkout s =
     (if isCompleting s then s
      else setTimeout CompletionDialog
             (emit [PlayBeep BeepComplete, Vibrate [300, 100, 300, 100, 300]]
                (s\<lparr>isCompleting := True, isRunning := False, currentPhase := Complete\<rparr>)))"

text \<open>The index is a \<open>nat\<close>, so the test \<^verbatim>\<open>currentPhaseIndex < 0\<close> has no case here; an
  element of the sequence is always an object, so \<^verbatim>\<open>!phase\<close> has none either.\<close>

definition loadCurrentPhase :: "workoutState \<Rightarrow> workoutState" where
  "loadCurrentPhase s =
     (if currentPhaseIndex s \<ge> length (phaseSequence s) then completeWorkout s
      else
        (let ph = phaseSequence s ! currentPhaseIndex s
         in s\<lparr>currentPhase := ptype ph,
              timeRemaining := of_int (duration ph),
              currentRound := roundNo ph,
              currentSet := orZero (setNo ph),
              nextSet := orZero (nextSetNo ph),
              currentPerson := orZero (person ph)\<rparr>))"

definition startStopwatch :: "workoutState \<Rightarrow> workoutState" where
  "startStopwatch s =
     emit [PlayBeep BeepStart, Vibrate [100]]
       (s\<lparr>isRunning := True, isPaused := False, lapStartTime := elapsedTime s\<rparr>)"

text \<open>The validation of \<^verbatim>\<open>startTimer\<close>: the message of the \<^verbatim>\<open>alert\<close> it ends with, if any.\<close>

definition validationError :: "workoutMode \<Rightarrow> workoutConfig \<Rightarrow> string option" where
  "validationError m c =
     (if m = HeadToHead then
        (if workDuration c \<le> 0 then Some ''Work duration must be greater than 0''
         else if numberOfPeople c \<le> 0 \<or> numberOfRounds c \<le> 0
         then Some ''Number of people and number of rounds must be greater than 0''
         else None)
      else
        (if workDuration c \<le> 0 then Some ''Work duration must be greater than 0''
         else if setsPerRound c \<le> 0 \<or> numberOfRounds c \<le> 0
         then Some ''Sets per round and number of rounds must be greater than 0''
         else None))"

definition startTimer :: "form \<Rightarrow> workoutState \<Rightarrow> workoutState" where
  "startTimer f s0 =
     (let s = s0\<lparr>hasInteracted := True\<rparr> in
      if workoutMode s = Stopwatch then startStopwatch s
      else
        (let s1 = loadConfigFromForm f s in
         case validationError (workoutMode s1) (config s1) of
           Some msg \<Rightarrow> emit [Alert msg] s1
         | None \<Rightarrow>
             (let s2 = (if workoutMode s1 = HeadToHead then buildHeadToHeadSequence s1
                        else buildPhaseSequence s1) in
              if length (phaseSequence s2) = 0
              then emit [Alert ''Invalid workout configuration''] s2
              else
                emit [PlayBeep BeepStart, Vibrate [100]]
                  (loadCurrentPhase
                     (s2\<lparr>isRunning := True, isPaused := False,
                         currentPhaseIndex := 0, elapsedTime := 0\<rparr>)))))"

definition updateTimer :: "workoutState \<Rightarrow> workoutState" where
  "updateTimer s =
     (if \<not> isRunning s \<or> isPaused s \<or> isTransitioning s then s
      else if workoutMode s = Stopwatch then s\<lparr>elapsedTime := elapsedTime s + TICK\<rparr>
      else
        (let wasComplete = (timeRemaining s \<le> 0);
             s1 = (if \<not> wasComplete
                   then s\<lparr>timeRemaining := timeRemaining s - TICK,
                          elapsedTime := elapsedTime s + TICK\<rparr>
                   else s);
             s2 = (if timeRemaining s1 < 0 then s1\<lparr>timeRemaining := 0\<rparr> else s1)
         in if \<not> wasComplete \<and> timeRemaining s2 \<le> 0
            then setTimeout (PhaseTransition (currentPhaseIndex s2 + 1))
                   (emit [PlayBeep BeepEnd, Vibrate [100]] (s2\<lparr>isTransitioning := True\<rparr>))
            else s2))"

text \<open>The closure passed to \<^verbatim>\<open>setTimeout(..., 500)\<close> by \<open>updateTimer\<close>.\<close>

definition phaseTransitionCallback :: "nat \<Rightarrow> workoutState \<Rightarrow> workoutState" where
  "phaseTransitionCallback nextIndex s =
     (if \<not> isRunning s then s\<lparr>isTransitioning := False\<rparr>
      else
        (let s1 = s\<lparr>currentPhaseIndex := nextIndex, isTransitioning := False\<rparr> in
         if currentPhaseIndex s1 < length (phaseSequence s1) then
           (let nextPhase = phaseSequence s1 ! currentPhaseIndex s1;
                s2 = (if workoutMode s1 = HeadToHead \<and> ptype nextPhase = Work
                      then emit [PlayBeep BeepEnd, Vibrate [100]] s1
                      else if workoutMode s1 = Normal
                      then (if ptype nextPhase = Work \<and> setNo nextPhase = Some 1
                               \<and> roundNo nextPhase > currentRound s1
                            then emit [PlayBeep BeepRoundStart, Vibrate [200, 100, 200]] s1
                            else s1)
                      else s1)
            in loadCurrentPhase s2)
         else completeWorkout s1))"

definition pauseTimer :: "workoutState \<Rightarrow> workoutState" where
  "pauseTimer s = (if \<not> isRunning s then s else s\<lparr>isPaused := True\<rparr>)"

definition resumeTimer :: "workoutState \<Rightarrow> workoutState" where
  "resumeTimer s = (if \<not> isRunning s then s else s\<lparr>isPaused := False\<rparr>)"


text \<open>The closure of \<open>completeWorkout\<close>: the answer to \<^verbatim>\<open>confirm\<close> is an input.\<close>

definition completionDialogCallback :: "bool \<Rightarrow> workoutState \<Rightarrow> workoutState" where
  "completionDialogCallback shouldRestart s =
     (let s1 = s\<lparr>isCompleting := False\<rparr> in
      if shouldRestart then setTimeout Restart (resetTimer s1) else resetTimer s1)"

section \<open>Breathing timer engine\<close>

definition breathingPhases :: "breathConfig \<Rightarrow> breathingPhase list" where
  "breathingPhases c =
     (if breathIn c > 0 then [\<lparr>btype = BreathIn, bduration = breathIn c\<rparr>] else []) @
     (if inhaledHold c > 0 then [\<lparr>btype = InhaledHold, bduration = inhaledHold c\<rparr>] else []) @
     (if breathOut c > 0 then [\<lparr>btype = BreathOut, bduration = breathOut c\<rparr>] else []) @
     (if exhaledHold c > 0 then [\<lparr>btype = ExhaledHold, bduration = exhaledHold c\<rparr>] else [])"

definition buildBreathingSequence :: "workoutState \<Rightarrow> workoutState" where
  "buildBreathingSequence s =
     s\<lparr>breathingPhaseSequence := breathingPhases (breathingConfig s),
       currentBreathingPhaseIndex := 0\<rparr>"

definition breathConfigFromForm :: "breathingForm \<Rightarrow> breathConfig" where
  "breathConfigFromForm f =
     \<lparr>breathIn = orDefault (breathInTime f) 4,
      inhaledHold = orDefault (inhaledHoldTime f) 0,
      breathOut = orDefault (breathOutTime f) 4,
      exhaledHold = orDefault (exhaledHoldTime f) 0\<rparr>"

definition loadBreathingConfigFromForm :: "breathingForm \<Rightarrow> workoutState \<Rightarrow> workoutState" where
  "loadBreathingConfigFromForm f s = s\<lparr>breathingConfig := breathConfigFromForm f\<rparr>"

definition resetBreathingTimer :: "workoutState \<Rightarrow> workoutState" where
  "resetBreathingTimer s =
     s\<lparr>breathingIsRunning := False, breathingIsPaused := False,
       breathingIsTransitioning := False, currentBreathingPhase := BreathingReady,
       currentBreathingPhaseIndex := 0, breathingTimeRemaining := 0\<rparr>"

text \<open>After the index is wrapped to 0, \<^verbatim>\<open>!phase\<close> holds exactly when the sequence is empty.\<close>

definition loadBreathingPhase :: "workoutState \<Rightarrow> workoutState" where
  "loadBreathingPhase s0 =
     (let s = (if currentBreathingPhaseIndex s0 \<ge> length (breathingPhaseSequence s0)
               then s0\<lparr>currentBreathingPhaseIndex := 0\<rparr> else s0)
      in if currentBreathingPhaseIndex s \<ge> length (breathingPhaseSequence s)
         then resetBreathingTimer s
         else
           (let ph = breathingPhaseSequence s ! currentBreathingPhaseIndex s
            in s\<lparr>currentBreathingPhase := btype ph,
                 breathingTimeRemaining := of_int (bduration ph)\<rparr>))"

text \<open>The test that makes \<^verbatim>\<open>startBreathingTimer\<close> refuse a configuration.\<close>

definition breathingRejected :: "breathConfig \<Rightarrow> bool" where
  "breathingRejected c = (breathIn c \<le> 0 \<and> breathOut c \<le> 0)"

definition startBreathingTimer :: "breathingForm \<Rightarrow> workoutState \<Rightarrow> workoutState" where
  "startBreathingTimer f s0 =
     (let s = loadBreathingConfigFromForm f (s0\<lparr>hasInteracted := True\<rparr>) in
      if breathingRejected (breathingConfig s)
      then emit [Alert ''Breath in or breath out time must be greater than 0''] s
      else
        (let s1 = buildBreathingSequence s in
         if length (breathingPhaseSequence s1) = 0
         then emit [Alert ''Invalid breathing configuration''] s1
         else
           emit [PlayBeep BeepStart, Vibrate [100]]
             (loadBreathingPhase
                (s1\<lparr>breathingIsRunning := True, breathingIsPaused := False,
                    currentBreathingPhaseIndex := 0, breathingIsTransitioning := False\<rparr>))))"



text \<open>The closure passed to \<^verbatim>\<open>setTimeout(..., 500)\<close> by \<open>updateBreathingTimer\<close>. With a
  \<^verbatim>\<open>NaN\<close> index neither range test of \<^verbatim>\<open>loadBreathingPhase\<close> holds and the element read
  is \<^verbatim>\<open>undefined\<close>, so the timer is reset.\<close>

definition breathingTransitionCallback :: "nat option \<Rightarrow> workoutState \<Rightarrow> workoutState" where
  "breathingTransitionCallback nextIndex s =
     (if \<not> breathingIsRunning s then s\<lparr>breathingIsTransitioning := False\<rparr>
      else
        (case nextIndex of
           None \<Rightarrow> resetBreathingTimer (s\<lparr>breathingIsTransitioning := False\<rparr>)
         | Some i \<Rightarrow>
             loadBreathingPhase
               (s\<lparr>currentBreathingPhaseIndex := i, breathingIsTransitioning := False\<rparr>)))"

definition pauseBreathingTimer :: "workoutState \<Rightarrow> workoutState" where
  "pauseBreathingTimer s =
     (if \<not> breathingIsRunning s then s else s\<lparr>breathingIsPaused := True\<rparr>)"

definition resumeBreathingTimer :: "workoutState \<Rightarrow> workoutState" where
  "resumeBreathingTimer s =
     (if \<not> breathingIsRunning s then s else s\<lparr>breathingIsPaused := False\<rparr>)"

section \<open>The timer queue\<close>

text \<open>
  The browser runs the \<open>i\<close>-th pending callback and removes it from the queue. The answer
  to the completion dialog and the form read by a restart are inputs of that moment.
\<close>

definition fireTimeout :: "nat \<Rightarrow> bool \<Rightarrow> form \<Rightarrow> workoutState \<Rightarrow> workoutState" where
  "fireTimeout i answer f s =
     (if i < length (pendingTimeouts s) then
        (let t = pendingTimeouts s ! i;
             s1 = s\<lparr>pendingTimeouts := take i (pendingTimeouts s) @ drop (Suc i) (pendingTimeouts s)\<rparr>
         in case t of
              PhaseTransition n \<Rightarrow> phaseTransitionCallback n s1
            | CompletionDialog \<Rightarrow> completionDialogCallback answer s1
            | Restart \<Rightarrow> startTimer f s1
            | BreathingTransition n \<Rightarrow> breathingTransitionCallback n s1)
      else s)"



section \<open>Closed forms of the builders\<close>

text \<open>
  The sequences as the builders' comments describe them, round by round and set by set;
  the builders are shown equal to these forms below.
\<close>

text \<open>What one pass of the inner loop and one pass of the outer loop append.\<close>

definition setBlock :: "workoutConfig \<Rightarrow> int \<Rightarrow> int \<Rightarrow> phase list" where
  "setBlock c r s = workPhase c r s #
     (if s < setsPerRound c \<and> restDuration c > 0 then [restPhase c r s] else [])"

definition roundBlock :: "workoutConfig \<Rightarrow> int \<Rightarrow> phase list" where
  "roundBlock c r = concat (map (setBlock c r) [1..setsPerRound c]) @
     (if r < numberOfRounds c \<and> longRestDuration c > 0 then [longRestPhase c r] else [])"

text \<open>The sequence that \<open>startTimer\<close> builds for a mode and a configuration.\<close>

definition builtPhases :: "workoutMode \<Rightarrow> workoutConfig \<Rightarrow> phase list" where
  "builtPhases m c = (if m = HeadToHead then headToHeadPhases c else intervalPhases c)"

section \<open>Example inputs\<close>


definition bareExample :: workoutState where
  "bareExample =
     initialState\<lparr>config :=
       \<lparr>setupDuration = 0, warmupDuration = 0, workDuration = 30, restDuration = 0,
        longRestDuration = 0, setsPerRound = 2, numberOfRounds = 2, numberOfPeople = 2\<rparr>\<rparr>"

definition h2hExample :: workoutState where
  "h2hExample =
     initialState\<lparr>workoutMode := HeadToHead, config :=
       \<lparr>setupDuration = 5, warmupDuration = 0, workDuration = 20, restDuration = 0,
        longRestDuration = 0, setsPerRound = 0, numberOfRounds = 2, numberOfPeople = 3\<rparr>\<rparr>"

definition exampleForm :: form where
  "exampleForm =
     \<lparr>setupDurationInput = Some 1, warmupDurationInput = None, workDurationInput = Some 30,
      restDurationInput = Some 10, longRestDurationInput = Some 60, setsPerRoundInput = Some 3,
      numberOfRoundsInput = Some 2, numberOfPeopleInput = None,
      workDurationHeadToHeadInput = None, setupDurationHeadToHeadInput = None,
      numberOfRoundsHeadToHeadInput = None\<rparr>"

definition invalidForm :: form where
  "invalidForm = exampleForm\<lparr>workDurationInput := Some (- 5)\<rparr>"

definition runningExample :: workoutState where
  "runningExample = startTimer exampleForm initialState"

text \<open>A run whose first phase is ticked to its end and that is reset during the settle
  delay (\<open>resetRun\<close>); then a new run is started and the callback of the old run fires
  (\<open>staleRun\<close>).\<close>

definition resetRun :: workoutState where
  "resetRun = resetTimer ((updateTimer ^^ 100) runningExample)"

definition staleRun :: workoutState where
  "staleRun = fireTimeout 0 False exampleForm (startTimer exampleForm resetRun)"



definition defaultedForm :: breathingForm where
  "defaultedForm =
     \<lparr>breathInTime = None, inhaledHoldTime = None, breathOutTime = Some 0,
      exhaledHoldTime = Some 0\<rparr>"

definition negativeForm :: breathingForm where
  "negativeForm =
     \<lparr>breathInTime = Some (- 1), inhaledHoldTime = None, breathOutTime = Some (- 2),
      exhaledHoldTime = None\<rparr>"




section \<open>Properties of the sequence builders\<close>

lemma totalOf_sum: "totalOf sq = sum_list (map duration sq)"
proof -
  have "foldl (\<lambda>sum p. sum + duration p) a sq = a + sum_list (map duration sq)" for a
    by (induction sq arbitrary: a) auto
  then show ?thesis by (simp add: totalOf_def)
qed

lemma countType_append [simp]: "countType t (xs @ ys) = countType t xs + countType t ys"
  by (simp add: countType_def)

lemma countType_Nil [simp]: "countType t [] = 0"
  by (simp add: countType_def)

lemma countType_Cons [simp]:
  "countType t (p # ps) = (if ptype p = t then 1 else 0) + countType t ps"
  by (simp add: countType_def)

lemma ptype_phases [simp]:
  "ptype (workPhase c r s) = Work" "ptype (restPhase c r s) = Rest"
  "ptype (longRestPhase c r) = LongRest" "ptype (setupPhase c) = Setup"
  "ptype (warmupPhase c) = Warmup" "ptype (h2hWorkPhase c r p) = Work"
  "ptype (h2hSetupPhase c) = Setup"
  by (simp_all add: workPhase_def restPhase_def longRestPhase_def setupPhase_def
      warmupPhase_def h2hWorkPhase_def h2hSetupPhase_def)

lemma duration_phases [simp]:
  "duration (workPhase c r s) = workDuration c" "duration (restPhase c r s) = restDuration c"
  "duration (longRestPhase c r) = longRestDuration c" "duration (setupPhase c) = setupDuration c"
  "duration (warmupPhase c) = warmupDuration c" "duration (h2hWorkPhase c r p) = workDuration c"
  "duration (h2hSetupPhase c) = setupDuration c"
  by (simp_all add: workPhase_def restPhase_def longRestPhase_def setupPhase_def
      warmupPhase_def h2hWorkPhase_def h2hSetupPhase_def)

lemma setsLoop_eq: "setsLoop c r s sq = sq @ concat (map (setBlock c r) [s..setsPerRound c])"
proof (induction c r s sq rule: setsLoop.induct)
  case (1 c r s sq)
  show ?case
  proof (cases "s \<le> setsPerRound c")
    case True
    have acc: "(sq @ [workPhase c r s]) @
        (if s < setsPerRound c \<and> restDuration c > 0 then [restPhase c r s] else []) =
        sq @ setBlock c r s"
      by (simp add: setBlock_def)
    have step: "setsLoop c r s sq = setsLoop c r (s + 1) (sq @ setBlock c r s)"
      by (subst setsLoop.simps) (simp only: True if_True acc)
    have "setsLoop c r (s + 1) (sq @ setBlock c r s) =
        (sq @ setBlock c r s) @ concat (map (setBlock c r) [s + 1..setsPerRound c])"
      using 1 [OF True] by (simp only: acc)
    with step show ?thesis
      by (simp add: upto_rec1 [OF True])
  next
    case False
    then show ?thesis by (subst setsLoop.simps) simp
  qed
qed

lemma roundsLoop_eq: "roundsLoop c r sq = sq @ concat (map (roundBlock c) [r..numberOfRounds c])"
proof (induction c r sq rule: roundsLoop.induct)
  case (1 c r sq)
  show ?case
  proof (cases "r \<le> numberOfRounds c")
    case True
    have acc: "setsLoop c r 1 sq @
        (if r < numberOfRounds c \<and> longRestDuration c > 0 then [longRestPhase c r] else []) =
        sq @ roundBlock c r"
      by (simp add: roundBlock_def setsLoop_eq)
    have step: "roundsLoop c r sq = roundsLoop c (r + 1) (sq @ roundBlock c r)"
      by (subst roundsLoop.simps) (simp only: True if_True acc)
    have "roundsLoop c (r + 1) (sq @ roundBlock c r) =
        (sq @ roundBlock c r) @ concat (map (roundBlock c) [r + 1..numberOfRounds c])"
      using 1 [OF True] by (simp only: acc)
    with step show ?thesis
      by (simp add: upto_rec1 [OF True])
  next
    case False
    then show ?thesis by (subst roundsLoop.simps) simp
  qed
qed

lemma peopleLoop_eq: "peopleLoop c r p sq = sq @ map (h2hWorkPhase c r) [p..numberOfPeople c]"
proof (induction c r p sq rule: peopleLoop.induct)
  case (1 c r p sq)
  show ?case
  proof (cases "p \<le> numberOfPeople c")
    case True
    then show ?thesis
      using 1 by (subst peopleLoop.simps) (simp add: upto_rec1 [of p])
  next
    case False
    then show ?thesis by (subst peopleLoop.simps) simp
  qed
qed

lemma h2hRoundsLoop_eq:
  "h2hRoundsLoop c r sq =
     sq @ concat (map (\<lambda>r. map (h2hWorkPhase c r) [1..numberOfPeople c]) [r..numberOfRounds c])"
proof (induction c r sq rule: h2hRoundsLoop.induct)
  case (1 c r sq)
  show ?case
  proof (cases "r \<le> numberOfRounds c")
    case True
    then show ?thesis
      using 1 by (subst h2hRoundsLoop.simps) (simp add: upto_rec1 [of r] peopleLoop_eq)
  next
    case False
    then show ?thesis by (subst h2hRoundsLoop.simps) simp
  qed
qed


lemma countType_concat_const:
  "(\<And>k. k \<in> set ks \<Longrightarrow> countType t (f k) = n) \<Longrightarrow>
   countType t (concat (map f ks)) = length ks * n"
  by (induction ks) auto


lemma buildPhaseSequence_fields [simp]:
  "phaseSequence (buildPhaseSequence s) = intervalPhases (config s)"
  "totalWorkoutTime (buildPhaseSequence s) = totalOf (intervalPhases (config s))"
  "phaseSequence (buildPhaseSequenceBasic s) = intervalPhasesBasic (config s)"
  "totalWorkoutTime (buildPhaseSequenceBasic s) = totalOf (intervalPhasesBasic (config s))"
  "phaseSequence (buildHeadToHeadSequence s) = headToHeadPhases (config s)"
  "totalWorkoutTime (buildHeadToHeadSequence s) = totalOf (headToHeadPhases (config s))"
  by (simp_all add: buildPhaseSequence_def buildPhaseSequenceBasic_def
      buildHeadToHeadSequence_def Let_def)






lemma intervalPhases_eq:
  "intervalPhases c =
     (if setupDuration c > 0 then [setupPhase c] else []) @
     (if warmupDuration c > 0 then [warmupPhase c] else []) @
     concat (map (roundBlock c) [1..numberOfRounds c])"
  by (simp add: intervalPhases_def roundsLoop_eq)

lemma intervalPhasesBasic_eq:
  "intervalPhasesBasic c =
     (if warmupDuration c > 0 then [warmupPhase c] else []) @
     concat (map (roundBlock c) [1..numberOfRounds c])"
  by (simp add: intervalPhasesBasic_def roundsLoop_eq)

lemma headToHeadPhases_eq:
  "headToHeadPhases c =
     (if setupDuration c > 0 then [h2hSetupPhase c] else []) @
     concat (map (\<lambda>r. map (h2hWorkPhase c r) [1..numberOfPeople c]) [1..numberOfRounds c])"
  by (simp add: headToHeadPhases_def h2hRoundsLoop_eq)







lemma breathingPhases_durations:
  "p \<in> set (breathingPhases bc) \<Longrightarrow> 0 < bduration p"
  by (auto simp: breathingPhases_def split: if_splits)

lemma validationError_None:
  "validationError m c = None \<longleftrightarrow>
     0 < workDuration c \<and> 0 < numberOfRounds c \<and>
     (if m = HeadToHead then 0 < numberOfPeople c else 0 < setsPerRound c)"
  by (auto simp: validationError_def)


lemma countType_zero_iff: "countType t sq = 0 \<longleftrightarrow> (\<forall>p \<in> set sq. ptype p \<noteq> t)"
  by (auto simp: countType_def filter_empty_conv)

lemma roundBlock_member:
  assumes "p \<in> set (roundBlock c r)"
  shows "(ptype p = Work \<and> duration p = workDuration c)
       \<or> (ptype p = Rest \<and> duration p = restDuration c \<and> 0 < restDuration c)
       \<or> (ptype p = LongRest \<and> duration p = longRestDuration c \<and> 0 < longRestDuration c)"
  using assms by (auto simp: roundBlock_def setBlock_def split: if_splits)

lemma intervalPhases_member:
  assumes "p \<in> set (intervalPhases c)"
  shows "(ptype p = Setup \<and> duration p = setupDuration c \<and> 0 < setupDuration c)
       \<or> (ptype p = Warmup \<and> duration p = warmupDuration c \<and> 0 < warmupDuration c)
       \<or> (ptype p = Work \<and> duration p = workDuration c)
       \<or> (ptype p = Rest \<and> duration p = restDuration c \<and> 0 < restDuration c)
       \<or> (ptype p = LongRest \<and> duration p = longRestDuration c \<and> 0 < longRestDuration c)"
proof -
  from assms consider "p = setupPhase c" "0 < setupDuration c"
    | "p = warmupPhase c" "0 < warmupDuration c"
    | r where "p \<in> set (roundBlock c r)"
    by (auto simp: intervalPhases_eq split: if_splits)
  then show ?thesis
  proof cases
    case 3
    from roundBlock_member [OF this] show ?thesis by blast
  qed simp_all
qed

lemma intervalPhasesBasic_member:
  assumes "p \<in> set (intervalPhasesBasic c)"
  shows "(ptype p = Warmup \<and> duration p = warmupDuration c \<and> 0 < warmupDuration c)
       \<or> (ptype p = Work \<and> duration p = workDuration c)
       \<or> (ptype p = Rest \<and> duration p = restDuration c \<and> 0 < restDuration c)
       \<or> (ptype p = LongRest \<and> duration p = longRestDuration c \<and> 0 < longRestDuration c)"
proof -
  from assms consider "p = warmupPhase c" "0 < warmupDuration c"
    | r where "p \<in> set (roundBlock c r)"
    by (auto simp: intervalPhasesBasic_eq split: if_splits)
  then show ?thesis
  proof cases
    case 2
    from roundBlock_member [OF this] show ?thesis by blast
  qed simp_all
qed

lemma headToHeadPhases_member:
  assumes "p \<in> set (headToHeadPhases c)"
  shows "(ptype p = Setup \<and> duration p = setupDuration c \<and> 0 < setupDuration c)
       \<or> (ptype p = Work \<and> duration p = workDuration c)"
  using assms by (auto simp: headToHeadPhases_eq split: if_splits)

lemma buildBreathingSequence_fields [simp]:
  "breathingPhaseSequence (buildBreathingSequence s) = breathingPhases (breathingConfig s)"
  by (simp add: buildBreathingSequence_def)

text \<open>
  Claim C6. For a configuration that the validation of \<open>startTimer\<close> accepts, every phase
  of the interval sequence (both variants) and of the head-to-head sequence has a strictly
  positive duration, and so has every phase of a breathing sequence. A phase whose
  configured duration is 0 is left out: no setup, warmup, rest or long-rest phase is in
  the sequence when its duration is 0, and the breathing sequence has one phase for each
  positive duration and no other.
\<close>

theorem emitted_phases_positive:
  "(validationError (workoutMode s) (config s) = None \<longrightarrow>
      (\<forall>p \<in> set (phaseSequence (buildPhaseSequence s)). 0 < duration p)
      \<and> (\<forall>p \<in> set (phaseSequence (buildPhaseSequenceBasic s)). 0 < duration p)
      \<and> (\<forall>p \<in> set (phaseSequence (buildHeadToHeadSequence s)). 0 < duration p))
   \<and> (\<forall>p \<in> set (breathingPhaseSequence (buildBreathingSequence s)). 0 < bduration p)
   \<and> (setupDuration (config s) = 0 \<longrightarrow>
        countType Setup (phaseSequence (buildPhaseSequence s)) = 0
        \<and> countType Setup (phaseSequence (buildHeadToHeadSequence s)) = 0)
   \<and> (warmupDuration (config s) = 0 \<longrightarrow>
        countType Warmup (phaseSequence (buildPhaseSequence s)) = 0)
   \<and> (restDuration (config s) = 0 \<longrightarrow>
        countType Rest (phaseSequence (buildPhaseSequence s)) = 0)
   \<and> (longRestDuration (config s) = 0 \<longrightarrow>
        countType LongRest (phaseSequence (buildPhaseSequence s)) = 0)
   \<and> length (breathingPhaseSequence (buildBreathingSequence s)) =
        (if 0 < breathIn (breathingConfig s) then 1 else 0)
        + (if 0 < inhaledHold (breathingConfig s) then 1 else 0)
        + (if 0 < breathOut (breathingConfig s) then 1 else 0)
        + (if 0 < exhaledHold (breathingConfig s) then 1 else 0)"
proof -
  let ?c = "config s"
  have pos: "0 < workDuration ?c" if "validationError (workoutMode s) ?c = None"
    using that by (simp add: validationError_None)
  have a: "\<forall>p \<in> set (intervalPhases ?c). 0 < duration p"
    if "validationError (workoutMode s) ?c = None"
    using intervalPhases_member [of _ ?c] pos [OF that] by fastforce
  have b: "\<forall>p \<in> set (intervalPhasesBasic ?c). 0 < duration p"
    if "validationError (workoutMode s) ?c = None"
    using intervalPhasesBasic_member [of _ ?c] pos [OF that] by fastforce
  have c: "\<forall>p \<in> set (headToHeadPhases ?c). 0 < duration p"
    if "validationError (workoutMode s) ?c = None"
    using headToHeadPhases_member [of _ ?c] pos [OF that] by fastforce
  have d: "\<forall>p \<in> set (breathingPhases (breathingConfig s)). 0 < bduration p"
    using breathingPhases_durations by blast
  have e: "countType Setup (intervalPhases ?c) = 0 \<and> countType Setup (headToHeadPhases ?c) = 0"
    if "setupDuration ?c = 0"
    using intervalPhases_member [of _ ?c] headToHeadPhases_member [of _ ?c] that
    unfolding countType_zero_iff by fastforce
  have f: "countType Warmup (intervalPhases ?c) = 0" if "warmupDuration ?c = 0"
    using intervalPhases_member [of _ ?c] that unfolding countType_zero_iff by fastforce
  have g: "countType Rest (intervalPhases ?c) = 0" if "restDuration ?c = 0"
    using intervalPhases_member [of _ ?c] that unfolding countType_zero_iff by fastforce
  have h: "countType LongRest (intervalPhases ?c) = 0" if "longRestDuration ?c = 0"
    using intervalPhases_member [of _ ?c] that unfolding countType_zero_iff by fastforce
  have i: "length (breathingPhases (breathingConfig s)) =
        (if 0 < breathIn (breathingConfig s) then 1 else 0)
        + (if 0 < inhaledHold (breathingConfig s) then 1 else 0)
        + (if 0 < breathOut (breathingConfig s) then 1 else 0)
        + (if 0 < exhaledHold (breathingConfig s) then 1 else 0)"
    by (simp add: breathingPhases_def)
  show ?thesis
    using a b c d e f g h i by simp
qed



theorem emitted_phases_positive_witness:
  "validationError (workoutMode bareExample) (config bareExample) = None
   \<and> setupDuration (config bareExample) = 0 \<and> warmupDuration (config bareExample) = 0
   \<and> restDuration (config bareExample) = 0 \<and> longRestDuration (config bareExample) = 0
   \<and> list_all (\<lambda>p. 0 < duration p) (phaseSequence (buildPhaseSequence bareExample))
   \<and> list_all (\<lambda>p. 0 < duration p) (phaseSequence (buildHeadToHeadSequence bareExample))
   \<and> list_all (\<lambda>p. 0 < bduration p) (breathingPhaseSequence (buildBreathingSequence bareExample))
   \<and> phaseSequence (buildPhaseSequence bareExample) \<noteq> []
   \<and> breathingPhaseSequence (buildBreathingSequence bareExample) \<noteq> []
   \<and> countType Setup (phaseSequence (buildPhaseSequence bareExample)) = 0
   \<and> countType Warmup (phaseSequence (buildPhaseSequence bareExample)) = 0
   \<and> countType Rest (phaseSequence (buildPhaseSequence bareExample)) = 0
   \<and> countType LongRest (phaseSequence (buildPhaseSequence bareExample)) = 0"
proof -
  have c: "validationError (workoutMode bareExample) (config bareExample) = None"
    "setupDuration (config bareExample) = 0" "warmupDuration (config bareExample) = 0"
    "restDuration (config bareExample) = 0" "longRestDuration (config bareExample) = 0"
    by (simp_all add: bareExample_def initialState_def validationError_def)
  have ne: "phaseSequence (buildPhaseSequence bareExample) \<noteq> []"
    "breathingPhaseSequence (buildBreathingSequence bareExample) \<noteq> []"
    by (simp_all add: bareExample_def initialState_def intervalPhases_eq roundBlock_def
        setBlock_def breathingPhases_def upto_rec1)
  from emitted_phases_positive [of bareExample] c ne show ?thesis
    unfolding list_all_iff by blast
qed


text \<open>
  Claim C7. In head-to-head mode with \<open>P > 0\<close> people and \<open>R > 0\<close> rounds the sequence is
  the setup phase, if its duration is positive, followed for each round \<open>1..R\<close> in order by
  one work phase for each person \<open>1..P\<close> in order; it holds \<open>R * P\<close> work phases and no
  rest, long-rest or warmup phase. With 3 people, 2 rounds, 20 seconds of work and 5 of
  setup it has 7 phases that total 125 seconds, the persons being 1, 2, 3 in round 1
  and 1, 2, 3 in round 2.
\<close>

theorem head_to_head_sequence:
  "(0 < numberOfPeople (config s) \<and> 0 < numberOfRounds (config s) \<longrightarrow>
      phaseSequence (buildHeadToHeadSequence s) =
        (if 0 < setupDuration (config s) then [h2hSetupPhase (config s)] else []) @
        concat (map (\<lambda>r. map (\<lambda>p. h2hWorkPhase (config s) r p) [1..numberOfPeople (config s)])
                    [1..numberOfRounds (config s)])
      \<and> int (countType Work (phaseSequence (buildHeadToHeadSequence s)))
           = numberOfRounds (config s) * numberOfPeople (config s)
      \<and> countType Rest (phaseSequence (buildHeadToHeadSequence s)) = 0
      \<and> countType LongRest (phaseSequence (buildHeadToHeadSequence s)) = 0
      \<and> countType Warmup (phaseSequence (buildHeadToHeadSequence s)) = 0)
   \<and> length (phaseSequence (buildHeadToHeadSequence h2hExample)) = 7
   \<and> totalWorkoutTime (buildHeadToHeadSequence h2hExample) = 125
   \<and> map ptype (phaseSequence (buildHeadToHeadSequence h2hExample))
        = [Setup, Work, Work, Work, Work, Work, Work]
   \<and> map person (phaseSequence (buildHeadToHeadSequence h2hExample))
        = [Some 0, Some 1, Some 2, Some 3, Some 1, Some 2, Some 3]
   \<and> map roundNo (phaseSequence (buildHeadToHeadSequence h2hExample))
        = [0, 1, 1, 1, 2, 2, 2]"
proof -
  let ?c = "config s"
  have cnt: "countType t (concat (map (\<lambda>r. map (h2hWorkPhase ?c r) [1..numberOfPeople ?c]) ks))
      = length ks * (if t = Work then nat (numberOfPeople ?c) else 0)" for t ks
  proof (rule countType_concat_const)
    fix k
    have "countType t (map (h2hWorkPhase ?c k) ps) = (if t = Work then length ps else 0)" for ps
      by (induction ps) auto
    then show "countType t (map (h2hWorkPhase ?c k) [1..numberOfPeople ?c])
        = (if t = Work then nat (numberOfPeople ?c) else 0)"
      by simp
  qed
  have general: "phaseSequence (buildHeadToHeadSequence s) =
        (if 0 < setupDuration ?c then [h2hSetupPhase ?c] else []) @
        concat (map (\<lambda>r. map (\<lambda>p. h2hWorkPhase ?c r p) [1..numberOfPeople ?c])
                    [1..numberOfRounds ?c])"
    by (simp add: headToHeadPhases_eq)
  have work: "int (countType Work (phaseSequence (buildHeadToHeadSequence s)))
           = numberOfRounds ?c * numberOfPeople ?c"
    if "0 < numberOfPeople ?c" "0 < numberOfRounds ?c"
    using that by (simp add: headToHeadPhases_eq cnt)
  have none: "countType Rest (phaseSequence (buildHeadToHeadSequence s)) = 0"
    "countType LongRest (phaseSequence (buildHeadToHeadSequence s)) = 0"
    "countType Warmup (phaseSequence (buildHeadToHeadSequence s)) = 0"
    by (simp_all add: headToHeadPhases_eq cnt)
  have ex: "phaseSequence (buildHeadToHeadSequence h2hExample) =
      [h2hSetupPhase (config h2hExample),
       h2hWorkPhase (config h2hExample) 1 1, h2hWorkPhase (config h2hExample) 1 2,
       h2hWorkPhase (config h2hExample) 1 3, h2hWorkPhase (config h2hExample) 2 1,
       h2hWorkPhase (config h2hExample) 2 2, h2hWorkPhase (config h2hExample) 2 3]"
    by (simp add: headToHeadPhases_eq h2hExample_def initialState_def upto_rec1)
  have tot: "totalWorkoutTime (buildHeadToHeadSequence h2hExample) = 125"
    using ex by (simp add: totalOf_sum h2hExample_def initialState_def)
  have fields: "map ptype (phaseSequence (buildHeadToHeadSequence h2hExample))
        = [Setup, Work, Work, Work, Work, Work, Work]"
    "map person (phaseSequence (buildHeadToHeadSequence h2hExample))
        = [Some 0, Some 1, Some 2, Some 3, Some 1, Some 2, Some 3]"
    "map roundNo (phaseSequence (buildHeadToHeadSequence h2hExample))
        = [0, 1, 1, 1, 2, 2, 2]"
    unfolding ex by (simp_all add: h2hWorkPhase_def h2hSetupPhase_def)
  have len: "length (phaseSequence (buildHeadToHeadSequence h2hExample)) = 7"
    unfolding ex by simp
  show ?thesis
    using general work none tot fields len by simp
qed

theorem head_to_head_sequence_witness:
  "0 < numberOfPeople (config h2hExample) \<and> 0 < numberOfRounds (config h2hExample)
   \<and> countType Work (phaseSequence (buildHeadToHeadSequence h2hExample)) = 6
   \<and> countType Rest (phaseSequence (buildHeadToHeadSequence h2hExample)) = 0
   \<and> countType LongRest (phaseSequence (buildHeadToHeadSequence h2hExample)) = 0"
proof -
  have c: "numberOfRounds (config h2hExample) = 2" "numberOfPeople (config h2hExample) = 3"
    by (simp_all add: h2hExample_def initialState_def)
  then have h: "0 < numberOfPeople (config h2hExample) \<and> 0 < numberOfRounds (config h2hExample)"
    by simp
  with head_to_head_sequence [of h2hExample]
  have "int (countType Work (phaseSequence (buildHeadToHeadSequence h2hExample)))
           = numberOfRounds (config h2hExample) * numberOfPeople (config h2hExample)"
    and "countType Rest (phaseSequence (buildHeadToHeadSequence h2hExample)) = 0"
    and "countType LongRest (phaseSequence (buildHeadToHeadSequence h2hExample)) = 0"
    by blast+
  with h show ?thesis
    unfolding c by simp
qed



section \<open>Starting a run\<close>

lemma builtPhases_nonempty:
  assumes "validationError m c = None"
  shows "builtPhases m c \<noteq> []"
proof -
  from assms have v: "0 < numberOfRounds c"
    "m = HeadToHead \<Longrightarrow> 0 < numberOfPeople c" "m \<noteq> HeadToHead \<Longrightarrow> 0 < setsPerRound c"
    by (simp_all add: validationError_None split: if_splits)
  show ?thesis
  proof (cases "m = HeadToHead")
    case True
    with v show ?thesis
      by (simp add: builtPhases_def headToHeadPhases_eq upto_rec1 [of 1])
  next
    case False
    with v show ?thesis
      by (simp add: builtPhases_def intervalPhases_eq roundBlock_def setBlock_def upto_rec1 [of 1])
  qed
qed

lemma startTimer_invalid:
  assumes "workoutMode s \<noteq> Stopwatch"
    and "validationError (workoutMode s) (configFromForm (workoutMode s) f) = Some msg"
  shows "startTimer f s =
     s\<lparr>hasInteracted := True, config := configFromForm (workoutMode s) f,
       cues := cues s @ [Alert msg]\<rparr>"
  using assms by (simp add: startTimer_def Let_def loadConfigFromForm_def emit_def)

lemma startTimer_valid:
  assumes "workoutMode s \<noteq> Stopwatch"
    and "validationError (workoutMode s) (configFromForm (workoutMode s) f) = None"
  shows "startTimer f s =
     s\<lparr>hasInteracted := True, config := configFromForm (workoutMode s) f,
       phaseSequence := builtPhases (workoutMode s) (configFromForm (workoutMode s) f),
       currentPhaseIndex := 0,
       totalWorkoutTime := totalOf (builtPhases (workoutMode s) (configFromForm (workoutMode s) f)),
       isRunning := True, isPaused := False, elapsedTime := 0,
       currentPhase := ptype (builtPhases (workoutMode s) (configFromForm (workoutMode s) f) ! 0),
       timeRemaining :=
         of_int (duration (builtPhases (workoutMode s) (configFromForm (workoutMode s) f) ! 0)),
       currentRound := roundNo (builtPhases (workoutMode s) (configFromForm (workoutMode s) f) ! 0),
       currentSet :=
         orZero (setNo (builtPhases (workoutMode s) (configFromForm (workoutMode s) f) ! 0)),
       nextSet :=
         orZero (nextSetNo (builtPhases (workoutMode s) (configFromForm (workoutMode s) f) ! 0)),
       currentPerson :=
         orZero (person (builtPhases (workoutMode s) (configFromForm (workoutMode s) f) ! 0)),
       cues := cues s @ [PlayBeep BeepStart, Vibrate [100]]\<rparr>"
proof -
  from builtPhases_nonempty [OF assms(2)]
  have ne: "builtPhases (workoutMode s) (configFromForm (workoutMode s) f) \<noteq> []" .
  show ?thesis
  proof (cases "workoutMode s = HeadToHead")
    case True
    with assms ne show ?thesis
      by (simp add: startTimer_def Let_def loadConfigFromForm_def emit_def builtPhases_def
          buildHeadToHeadSequence_def loadCurrentPhase_def)
  next
    case False
    with assms ne show ?thesis
      by (simp add: startTimer_def Let_def loadConfigFromForm_def emit_def builtPhases_def
          buildPhaseSequence_def loadCurrentPhase_def)
  qed
qed

lemma builtPhases_positive:
  assumes "validationError m c = None" "p \<in> set (builtPhases m c)"
  shows "0 < duration p"
proof -
  from assms(1) have "0 < workDuration c"
    by (simp add: validationError_None)
  with assms(2) intervalPhases_member [of p c] headToHeadPhases_member [of p c]
  show ?thesis
    by (auto simp: builtPhases_def split: if_splits)
qed


section \<open>Ticks\<close>

lemma TICK_pos [simp]: "0 < TICK"
  by (simp add: TICK_def)



lemma updateTimer_count:
  assumes "isRunning s" "\<not> isPaused s" "\<not> isTransitioning s" "workoutMode s \<noteq> Stopwatch"
    and "TICK < timeRemaining s"
  shows "updateTimer s =
     s\<lparr>timeRemaining := timeRemaining s - TICK, elapsedTime := elapsedTime s + TICK\<rparr>"
proof -
  from assms(5) TICK_pos have "\<not> timeRemaining s \<le> 0" "\<not> timeRemaining s - TICK < 0"
    "\<not> timeRemaining s - TICK \<le> 0"
    by linarith+
  with assms(1-4) show ?thesis
    by (simp add: updateTimer_def Let_def)
qed

lemma updateTimer_fire:
  assumes "isRunning s" "\<not> isPaused s" "\<not> isTransitioning s" "workoutMode s \<noteq> Stopwatch"
    and "0 < timeRemaining s" "timeRemaining s \<le> TICK"
  shows "updateTimer s =
     s\<lparr>timeRemaining := 0, elapsedTime := elapsedTime s + TICK, isTransitioning := True,
       cues := cues s @ [PlayBeep BeepEnd, Vibrate [100]],
       pendingTimeouts := pendingTimeouts s @ [PhaseTransition (currentPhaseIndex s + 1)]\<rparr>"
  using assms by (auto simp: updateTimer_def Let_def emit_def setTimeout_def)


text \<open>\<open>k\<close> ticks that do not exhaust the phase.\<close>

lemma ticks_before:
  assumes "isRunning s" "\<not> isPaused s" "\<not> isTransitioning s" "workoutMode s \<noteq> Stopwatch"
    and "of_nat k * TICK < timeRemaining s"
  shows "(updateTimer ^^ k) s =
     s\<lparr>timeRemaining := timeRemaining s - of_nat k * TICK,
       elapsedTime := elapsedTime s + of_nat k * TICK\<rparr>"
  using assms(5)
proof (induction k)
  case 0
  show ?case by simp
next
  case (Suc k)
  from Suc.prems have lt: "of_nat k * TICK < timeRemaining s"
    by (simp add: algebra_simps) (use TICK_pos in linarith)
  let ?t = "s\<lparr>timeRemaining := timeRemaining s - of_nat k * TICK,
       elapsedTime := elapsedTime s + of_nat k * TICK\<rparr>"
  have "TICK < timeRemaining ?t"
    using Suc.prems by (simp add: algebra_simps)
  then have "updateTimer ?t =
      ?t\<lparr>timeRemaining := timeRemaining ?t - TICK, elapsedTime := elapsedTime ?t + TICK\<rparr>"
    using assms(1-4) by (intro updateTimer_count) simp_all
  then show ?case
    by (simp add: Suc.IH [OF lt] algebra_simps)
qed




lemma ticks_exhaust:
  assumes "isRunning s" "\<not> isPaused s" "\<not> isTransitioning s" "workoutMode s \<noteq> Stopwatch"
    and "timeRemaining s = of_nat (Suc k) * TICK"
  shows "(updateTimer ^^ Suc k) s =
     s\<lparr>timeRemaining := 0, elapsedTime := elapsedTime s + of_nat (Suc k) * TICK,
       isTransitioning := True,
       cues := cues s @ [PlayBeep BeepEnd, Vibrate [100]],
       pendingTimeouts := pendingTimeouts s @ [PhaseTransition (currentPhaseIndex s + 1)]\<rparr>"
proof -
  have lt: "of_nat k * TICK < timeRemaining s"
    using assms(5) TICK_pos by (simp add: algebra_simps)
  let ?t = "s\<lparr>timeRemaining := timeRemaining s - of_nat k * TICK,
       elapsedTime := elapsedTime s + of_nat k * TICK\<rparr>"
  have k: "(updateTimer ^^ k) s = ?t"
    by (rule ticks_before [OF assms(1-4) lt])
  have "timeRemaining ?t = TICK"
    using assms(5) by (simp add: algebra_simps)
  then have "updateTimer ?t =
     ?t\<lparr>timeRemaining := 0, elapsedTime := elapsedTime ?t + TICK, isTransitioning := True,
       cues := cues ?t @ [PlayBeep BeepEnd, Vibrate [100]],
       pendingTimeouts := pendingTimeouts ?t @ [PhaseTransition (currentPhaseIndex ?t + 1)]\<rparr>"
    using assms(1-4) by (intro updateTimer_fire) simp_all
  then show ?thesis
    by (simp add: k algebra_simps)
qed

lemma exampleConfig:
  "configFromForm Normal exampleForm =
     \<lparr>setupDuration = 1, warmupDuration = 0, workDuration = 30, restDuration = 10,
      longRestDuration = 60, setsPerRound = 3, numberOfRounds = 2, numberOfPeople = 0\<rparr>"
  by (simp add: configFromForm_def exampleForm_def orDefault_def)

lemma examplePhases:
  "builtPhases Normal (configFromForm Normal exampleForm) =
     (let c = configFromForm Normal exampleForm in
      [setupPhase c,
       workPhase c 1 1, restPhase c 1 1, workPhase c 1 2, restPhase c 1 2, workPhase c 1 3,
       longRestPhase c 1,
       workPhase c 2 1, restPhase c 2 1, workPhase c 2 2, restPhase c 2 2, workPhase c 2 3])"
  by (simp add: builtPhases_def intervalPhases_eq roundBlock_def setBlock_def exampleConfig
      upto_rec1 Let_def)

lemma start_example:
  assumes "workoutMode s = Normal"
  shows "startTimer exampleForm s =
     s\<lparr>hasInteracted := True, config := configFromForm Normal exampleForm,
       phaseSequence := builtPhases Normal (configFromForm Normal exampleForm),
       currentPhaseIndex := 0, totalWorkoutTime := 281,
       isRunning := True, isPaused := False, elapsedTime := 0,
       currentPhase := Setup, timeRemaining := 1, currentRound := 0, currentSet := 0,
       nextSet := 0, currentPerson := 0,
       cues := cues s @ [PlayBeep BeepStart, Vibrate [100]]\<rparr>"
proof -
  have v: "validationError (workoutMode s) (configFromForm (workoutMode s) exampleForm) = None"
    by (simp add: assms exampleConfig validationError_def)
  have m: "workoutMode s \<noteq> Stopwatch"
    by (simp add: assms)
  have h: "builtPhases Normal (configFromForm Normal exampleForm) ! 0
      = setupPhase (configFromForm Normal exampleForm)"
    by (simp add: examplePhases Let_def)
  have t: "totalOf (builtPhases Normal (configFromForm Normal exampleForm)) = 281"
    unfolding examplePhases by (simp add: Let_def totalOf_sum exampleConfig)
  show ?thesis
    unfolding startTimer_valid [OF m v] assms h t
    by (simp add: setupPhase_def exampleConfig orZero_def)
qed

lemma runningExample_eq:
  "runningExample =
     initialState\<lparr>hasInteracted := True, config := configFromForm Normal exampleForm,
       phaseSequence := builtPhases Normal (configFromForm Normal exampleForm),
       currentPhaseIndex := 0, totalWorkoutTime := 281,
       isRunning := True, isPaused := False, elapsedTime := 0,
       currentPhase := Setup, timeRemaining := 1, currentRound := 0, currentSet := 0,
       nextSet := 0, currentPerson := 0,
       cues := [PlayBeep BeepStart, Vibrate [100]]\<rparr>"
  unfolding runningExample_def
  by (subst start_example) (simp_all add: initialState_def)

lemma runningExample_fields:
  "isRunning runningExample" "\<not> isPaused runningExample" "\<not> isTransitioning runningExample"
  "workoutMode runningExample = Normal" "timeRemaining runningExample = 1"
  "elapsedTime runningExample = 0" "currentPhaseIndex runningExample = 0"
  "pendingTimeouts runningExample = []"
  "cues runningExample = [PlayBeep BeepStart, Vibrate [100]]"
  by (simp_all add: runningExample_eq initialState_def)


section \<open>The claims about the workout timer\<close>

text \<open>
  Claim C4. In interval and head-to-head mode \<open>startTimer\<close> accepts a configuration exactly
  when the work duration, the number of rounds and the number of sets (of people, in
  head-to-head mode) are positive. When it refuses, it returns at once with an alert as the
  only cue: apart from the configuration read from the form and the interaction flag, the
  state is the one before the call, so the machine is not marked running and no field of the
  run is set. When it accepts, the sequence is not empty, so the alert for an empty
  sequence is never raised; the index is 0, the elapsed time is 0, phase 0 is loaded with the time
  remaining equal to its duration, and the machine is running.
\<close>

theorem start_validates:
  "workoutMode s \<noteq> Stopwatch \<longrightarrow>
     (validationError (workoutMode s) (config (loadConfigFromForm f s)) = None
        \<longleftrightarrow> 0 < workDuration (config (loadConfigFromForm f s))
            \<and> 0 < numberOfRounds (config (loadConfigFromForm f s))
            \<and> (if workoutMode s = HeadToHead
               then 0 < numberOfPeople (config (loadConfigFromForm f s))
               else 0 < setsPerRound (config (loadConfigFromForm f s))))
     \<and> (validationError (workoutMode s) (config (loadConfigFromForm f s)) \<noteq> None \<longrightarrow>
          (\<exists>msg. startTimer f s =
                   s\<lparr>hasInteracted := True, config := config (loadConfigFromForm f s),
                     cues := cues s @ [Alert msg]\<rparr>)
          \<and> isRunning (startTimer f s) = isRunning s
          \<and> isPaused (startTimer f s) = isPaused s
          \<and> currentPhaseIndex (startTimer f s) = currentPhaseIndex s
          \<and> elapsedTime (startTimer f s) = elapsedTime s
          \<and> timeRemaining (startTimer f s) = timeRemaining s
          \<and> currentPhase (startTimer f s) = currentPhase s
          \<and> phaseSequence (startTimer f s) = phaseSequence s
          \<and> totalWorkoutTime (startTimer f s) = totalWorkoutTime s
          \<and> pendingTimeouts (startTimer f s) = pendingTimeouts s)
     \<and> (validationError (workoutMode s) (config (loadConfigFromForm f s)) = None \<longrightarrow>
          phaseSequence (startTimer f s) \<noteq> []
          \<and> phaseSequence (startTimer f s)
              = (if workoutMode s = HeadToHead
                 then phaseSequence (buildHeadToHeadSequence (loadConfigFromForm f s))
                 else phaseSequence (buildPhaseSequence (loadConfigFromForm f s)))
          \<and> currentPhaseIndex (startTimer f s) = 0
          \<and> elapsedTime (startTimer f s) = 0
          \<and> timeRemaining (startTimer f s)
              = of_int (duration (phaseSequence (startTimer f s) ! 0))
          \<and> 0 < timeRemaining (startTimer f s)
          \<and> currentPhase (startTimer f s) = ptype (phaseSequence (startTimer f s) ! 0)
          \<and> isRunning (startTimer f s) \<and> \<not> isPaused (startTimer f s)
          \<and> cues (startTimer f s) = cues s @ [PlayBeep BeepStart, Vibrate [100]])
     \<and> cues (startTimer f s) \<noteq> cues s @ [Alert ''Invalid workout configuration'']"
proof (cases "workoutMode s = Stopwatch")
  case True
  then show ?thesis by simp
next
  case False
  let ?c = "configFromForm (workoutMode s) f"
  have cfg: "config (loadConfigFromForm f s) = ?c"
    by (simp add: loadConfigFromForm_def)
  have a: "validationError (workoutMode s) ?c = None
        \<longleftrightarrow> 0 < workDuration ?c \<and> 0 < numberOfRounds ?c
            \<and> (if workoutMode s = HeadToHead then 0 < numberOfPeople ?c else 0 < setsPerRound ?c)"
    by (rule validationError_None)
  have b: "(\<exists>msg. startTimer f s =
                   s\<lparr>hasInteracted := True, config := ?c, cues := cues s @ [Alert msg]\<rparr>)
          \<and> isRunning (startTimer f s) = isRunning s
          \<and> isPaused (startTimer f s) = isPaused s
          \<and> currentPhaseIndex (startTimer f s) = currentPhaseIndex s
          \<and> elapsedTime (startTimer f s) = elapsedTime s
          \<and> timeRemaining (startTimer f s) = timeRemaining s
          \<and> currentPhase (startTimer f s) = currentPhase s
          \<and> phaseSequence (startTimer f s) = phaseSequence s
          \<and> totalWorkoutTime (startTimer f s) = totalWorkoutTime s
          \<and> pendingTimeouts (startTimer f s) = pendingTimeouts s"
    if "validationError (workoutMode s) ?c \<noteq> None"
  proof -
    from that obtain msg where "validationError (workoutMode s) ?c = Some msg" by auto
    note eq = startTimer_invalid [OF False this]
    show ?thesis
      by (intro conjI exI [of _ msg]) (simp_all add: eq)
  qed
  have c: "phaseSequence (startTimer f s) \<noteq> []
          \<and> phaseSequence (startTimer f s)
              = (if workoutMode s = HeadToHead
                 then phaseSequence (buildHeadToHeadSequence (loadConfigFromForm f s))
                 else phaseSequence (buildPhaseSequence (loadConfigFromForm f s)))
          \<and> currentPhaseIndex (startTimer f s) = 0
          \<and> elapsedTime (startTimer f s) = 0
          \<and> timeRemaining (startTimer f s)
              = of_int (duration (phaseSequence (startTimer f s) ! 0))
          \<and> 0 < timeRemaining (startTimer f s)
          \<and> currentPhase (startTimer f s) = ptype (phaseSequence (startTimer f s) ! 0)
          \<and> isRunning (startTimer f s) \<and> \<not> isPaused (startTimer f s)
          \<and> cues (startTimer f s) = cues s @ [PlayBeep BeepStart, Vibrate [100]]"
    if v: "validationError (workoutMode s) ?c = None"
  proof -
    have ne: "builtPhases (workoutMode s) ?c \<noteq> []"
      by (rule builtPhases_nonempty [OF v])
    then have "builtPhases (workoutMode s) ?c ! 0 \<in> set (builtPhases (workoutMode s) ?c)"
      by simp
    from builtPhases_positive [OF v this]
    have pos: "0 < duration (builtPhases (workoutMode s) ?c ! 0)" .
    show ?thesis
      using ne pos by (simp add: startTimer_valid [OF False v] cfg builtPhases_def)
  qed
  have d: "cues (startTimer f s) \<noteq> cues s @ [Alert ''Invalid workout configuration'']"
  proof (cases "validationError (workoutMode s) ?c")
    case None
    then show ?thesis by (simp add: startTimer_valid [OF False])
  next
    case (Some msg)
    then have "msg \<noteq> ''Invalid workout configuration''"
      by (auto simp: validationError_def split: if_splits)
    then show ?thesis by (simp add: startTimer_invalid [OF False Some])
  qed
  from a b c d show ?thesis
    unfolding cfg by blast
qed



theorem start_validates_witness:
  "workoutMode initialState \<noteq> Stopwatch
   \<and> validationError (workoutMode initialState) (config (loadConfigFromForm invalidForm initialState))
        \<noteq> None
   \<and> \<not> isRunning (startTimer invalidForm initialState)
   \<and> phaseSequence (startTimer invalidForm initialState) = []
   \<and> validationError (workoutMode initialState) (config (loadConfigFromForm exampleForm initialState))
        = None
   \<and> isRunning (startTimer exampleForm initialState)
   \<and> currentPhaseIndex (startTimer exampleForm initialState) = 0
   \<and> elapsedTime (startTimer exampleForm initialState) = 0
   \<and> phaseSequence (startTimer exampleForm initialState) \<noteq> []"
proof -
  have m: "workoutMode initialState \<noteq> Stopwatch" "workoutMode initialState = Normal"
    by (simp_all add: initialState_def)
  have bad: "validationError (workoutMode initialState)
      (config (loadConfigFromForm invalidForm initialState)) \<noteq> None"
    by (simp add: m loadConfigFromForm_def configFromForm_def invalidForm_def exampleForm_def
        orDefault_def validationError_def)
  have good: "validationError (workoutMode initialState)
      (config (loadConfigFromForm exampleForm initialState)) = None"
    by (simp add: m loadConfigFromForm_def exampleConfig validationError_def)
  from start_validates [of initialState invalidForm] m(1) bad
  have "isRunning (startTimer invalidForm initialState) = isRunning initialState"
    and "phaseSequence (startTimer invalidForm initialState) = phaseSequence initialState"
    by blast+
  moreover from start_validates [of initialState exampleForm] m(1) good
  have "isRunning (startTimer exampleForm initialState)"
    and "currentPhaseIndex (startTimer exampleForm initialState) = 0"
    and "elapsedTime (startTimer exampleForm initialState) = 0"
    and "phaseSequence (startTimer exampleForm initialState) \<noteq> []"
    by blast+
  ultimately show ?thesis
    using m(1) bad good by (simp add: initialState_def)
qed







lemma exhausted_example:
  "(updateTimer ^^ 100) runningExample =
     runningExample\<lparr>timeRemaining := 0, elapsedTime := 1, isTransitioning := True,
       cues := [PlayBeep BeepStart, Vibrate [100], PlayBeep BeepEnd, Vibrate [100]],
       pendingTimeouts := [PhaseTransition 1]\<rparr>"
proof -
  have "(updateTimer ^^ Suc 99) runningExample =
     runningExample\<lparr>timeRemaining := 0,
       elapsedTime := elapsedTime runningExample + of_nat (Suc 99) * TICK,
       isTransitioning := True,
       cues := cues runningExample @ [PlayBeep BeepEnd, Vibrate [100]],
       pendingTimeouts := pendingTimeouts runningExample
          @ [PhaseTransition (currentPhaseIndex runningExample + 1)]\<rparr>"
    by (rule ticks_exhaust) (simp_all add: runningExample_fields TICK_def)
  then show ?thesis
    by (simp add: runningExample_fields TICK_def)
qed

text \<open>
  Claim C2. A reset during the settle delay leaves the machine ready, and the callback of
  the reset run, when it fires on the machine still at rest, changes nothing but its own
  removal from the queue. The reset does not take the callback out of the queue, though:
  when a new run is started before it fires, it finds the machine running, moves the new
  run to index 1 and loads the first work phase, although no tick of the new run has
  happened (elapsed time 0, setup phase skipped).
\<close>

theorem reset_then_restart_advances:
  "\<not> isRunning resetRun \<and> currentPhase resetRun = Ready \<and> currentPhaseIndex resetRun = 0
   \<and> pendingTimeouts resetRun = [PhaseTransition 1]
   \<and> fireTimeout 0 False exampleForm resetRun = resetRun\<lparr>pendingTimeouts := []\<rparr>
   \<and> currentPhaseIndex (startTimer exampleForm resetRun) = 0
   \<and> currentPhase (startTimer exampleForm resetRun) = Setup
   \<and> timeRemaining (startTimer exampleForm resetRun) = 1
   \<and> staleRun = fireTimeout 0 False exampleForm (startTimer exampleForm resetRun)
   \<and> isRunning staleRun
   \<and> currentPhaseIndex staleRun = 1
   \<and> currentPhase staleRun = Work
   \<and> timeRemaining staleRun = 30
   \<and> elapsedTime staleRun = 0
   \<and> pendingTimeouts staleRun = []"
proof -
  have r: "resetRun =
     runningExample\<lparr>cues := [PlayBeep BeepStart, Vibrate [100], PlayBeep BeepEnd, Vibrate [100]],
       pendingTimeouts := [PhaseTransition 1],
       isRunning := False, isPaused := False, isCompleting := False, isTransitioning := False,
       currentPhase := Ready, currentPhaseIndex := 0, currentRound := 0, currentSet := 0,
       nextSet := 0, currentPerson := 0, timeRemaining := 0, elapsedTime := 0,
       lapTimes := [], lapStartTime := 0\<rparr>"
    by (simp add: resetRun_def exhausted_example resetTimer_def)
  have f: "\<not> isRunning resetRun" "currentPhase resetRun = Ready" "currentPhaseIndex resetRun = 0"
    "pendingTimeouts resetRun = [PhaseTransition 1]" "workoutMode resetRun = Normal"
    "\<not> isTransitioning resetRun"
    by (simp_all add: r runningExample_fields)
  have quiet: "fireTimeout 0 False exampleForm resetRun = resetRun\<lparr>pendingTimeouts := []\<rparr>"
    using f by (simp add: fireTimeout_def phaseTransitionCallback_def Let_def)
  define sq where "sq = builtPhases Normal (configFromForm Normal exampleForm)"
  note st = start_example [OF f(5), folded sq_def]
  have s: "currentPhaseIndex (startTimer exampleForm resetRun) = 0"
    "currentPhase (startTimer exampleForm resetRun) = Setup"
    "timeRemaining (startTimer exampleForm resetRun) = 1"
    by (simp_all add: st)
  have stale: "staleRun = fireTimeout 0 False exampleForm (startTimer exampleForm resetRun)"
    by (simp add: staleRun_def resetRun_def)
  have ph: "sq ! Suc 0 = workPhase (configFromForm Normal exampleForm) 1 1" "Suc 0 < length sq" "\<not> length sq \<le> Suc 0"
    by (simp_all add: sq_def examplePhases Let_def)
  have fired: "staleRun =
      phaseTransitionCallback 1 ((startTimer exampleForm resetRun)\<lparr>pendingTimeouts := []\<rparr>)"
    unfolding stale by (simp add: fireTimeout_def st f Let_def)
  have res: "isRunning staleRun" "currentPhaseIndex staleRun = 1" "currentPhase staleRun = Work"
    "timeRemaining staleRun = 30" "elapsedTime staleRun = 0" "pendingTimeouts staleRun = []"
    unfolding fired
    by (simp_all add: st phaseTransitionCallback_def Let_def ph f loadCurrentPhase_def
        workPhase_def exampleConfig emit_def)
  from f quiet s stale res show ?thesis by simp
qed



section \<open>Stopwatch laps\<close>







section \<open>Breathing form\<close>

lemma orDefault_nonzero: "d \<noteq> 0 \<Longrightarrow> orDefault v d \<noteq> 0"
  by (simp add: orDefault_def split: option.splits)

lemma orDefault_nonpos:
  "0 < d \<Longrightarrow> orDefault v d \<le> 0 \<longleftrightarrow> (\<exists>a. v = Some a \<and> a < 0)"
  by (auto simp: orDefault_def split: option.splits)

text \<open>
  Claim C10. Whatever the breathing form holds, the configuration read from it has a
  breath-in and a breath-out time different from 0: an input that is 0 or cannot be parsed
  gives the default 4. Hence \<open>startBreathingTimer\<close> takes its rejection branch (the one that
  raises the alert about breath-in and breath-out) exactly when both inputs are negative
  numbers.
\<close>

theorem breathing_form_never_zero:
  "breathIn (breathingConfig (loadBreathingConfigFromForm f s)) \<noteq> 0
   \<and> breathOut (breathingConfig (loadBreathingConfigFromForm f s)) \<noteq> 0
   \<and> (breathInTime f = None \<or> breathInTime f = Some 0 \<longrightarrow>
        breathIn (breathingConfig (loadBreathingConfigFromForm f s)) = 4)
   \<and> (breathOutTime f = None \<or> breathOutTime f = Some 0 \<longrightarrow>
        breathOut (breathingConfig (loadBreathingConfigFromForm f s)) = 4)
   \<and> (breathingRejected (breathingConfig (loadBreathingConfigFromForm f s))
        \<longleftrightarrow> (\<exists>a b. breathInTime f = Some a \<and> a < 0 \<and> breathOutTime f = Some b \<and> b < 0))
   \<and> (cues (startBreathingTimer f s)
          = cues s @ [Alert ''Breath in or breath out time must be greater than 0'']
        \<longleftrightarrow> (\<exists>a b. breathInTime f = Some a \<and> a < 0 \<and> breathOutTime f = Some b \<and> b < 0))"
proof -
  let ?c = "breathingConfig (loadBreathingConfigFromForm f s)"
  have cfg: "?c = breathConfigFromForm f"
    by (simp add: loadBreathingConfigFromForm_def)
  have nz: "breathIn ?c \<noteq> 0" "breathOut ?c \<noteq> 0"
    by (simp_all add: cfg breathConfigFromForm_def orDefault_nonzero)
  have dflt: "breathIn ?c = 4" if "breathInTime f = None \<or> breathInTime f = Some 0"
    using that by (auto simp: cfg breathConfigFromForm_def orDefault_def)
  have dflt': "breathOut ?c = 4" if "breathOutTime f = None \<or> breathOutTime f = Some 0"
    using that by (auto simp: cfg breathConfigFromForm_def orDefault_def)
  have rej: "breathingRejected ?c
        \<longleftrightarrow> (\<exists>a b. breathInTime f = Some a \<and> a < 0 \<and> breathOutTime f = Some b \<and> b < 0)"
    by (auto simp: cfg breathingRejected_def breathConfigFromForm_def orDefault_nonpos)
  have cues_load: "cues (loadBreathingPhase t) = cues t" for t
    by (simp add: loadBreathingPhase_def resetBreathingTimer_def Let_def)
  have alert: "cues (startBreathingTimer f s)
          = cues s @ [Alert ''Breath in or breath out time must be greater than 0'']
        \<longleftrightarrow> breathingRejected ?c"
    by (simp add: startBreathingTimer_def Let_def emit_def cues_load
        loadBreathingConfigFromForm_def buildBreathingSequence_def)
  from nz dflt dflt' rej alert show ?thesis by blast
qed

theorem breathing_form_never_zero_witness:
  "breathInTime defaultedForm = None
   \<and> breathOutTime defaultedForm = Some 0
   \<and> breathIn (breathingConfig (loadBreathingConfigFromForm defaultedForm initialState)) = 4
   \<and> breathOut (breathingConfig (loadBreathingConfigFromForm defaultedForm initialState)) = 4
   \<and> \<not> breathingRejected (breathingConfig (loadBreathingConfigFromForm defaultedForm initialState))
   \<and> breathingRejected (breathingConfig (loadBreathingConfigFromForm negativeForm initialState))"
proof -
  have d: "breathInTime defaultedForm = None" "breathOutTime defaultedForm = Some 0"
    by (simp_all add: defaultedForm_def)
  have n: "\<exists>a b. breathInTime negativeForm = Some a \<and> a < 0
      \<and> breathOutTime negativeForm = Some b \<and> b < 0"
    by (simp add: negativeForm_def)
  have dn: "\<not> (\<exists>a b. breathInTime defaultedForm = Some a \<and> a < 0
      \<and> breathOutTime defaultedForm = Some b \<and> b < 0)"
    by (simp add: defaultedForm_def)
  from breathing_form_never_zero [of defaultedForm initialState] d dn
  have "breathIn (breathingConfig (loadBreathingConfigFromForm defaultedForm initialState)) = 4"
    and "breathOut (breathingConfig (loadBreathingConfigFromForm defaultedForm initialState)) = 4"
    and "\<not> breathingRejected (breathingConfig (loadBreathingConfigFromForm defaultedForm initialState))"
    by blast+
  moreover from breathing_form_never_zero [of negativeForm initialState] n
  have "breathingRejected (breathingConfig (loadBreathingConfigFromForm negativeForm initialState))"
    by blast
  ultimately show ?thesis
    using d by blast
qed



section \<open>The breathing cycle\<close>












end
